theory Spec2Isabelle
  imports Main
begin

section \<open>Values, requests and the parser's cache\<close>

text \<open>
  The values that travel through the parser are Python objects: what a decoded JSON
  document, a form value or a path variable can be. \<open>PNone\<close> is Python's \<open>None\<close>.
  JSON numbers are represented by integers.
\<close>

datatype pyval =
    PNone
  | PBool bool
  | PInt int
  | PStr string
  | PList "pyval list"
  | PDict "(string \<times> pyval) list"

text \<open>
  \<open>core.missing\<close>, the sentinel a resolver returns when there is nothing to return,
  is not a Python value of the request: a resolver returns either it or a value.
\<close>

datatype raw = Missing | Val pyval

text \<open>
  A field descriptor of the schema: expected type, required flag and source location
  (the key of \<open>__location_map__\<close>). The schema maps field names to descriptors, in
  declaration order.
\<close>

datatype ftype = String_field | Integer_field

record field =
  ftype :: ftype
  required :: bool
  location :: string

type_synonym schema = "(string \<times> field) list"

text \<open>
  \<open>await req.json\<close> either returns the decoded document or raises
  \<open>json.JSONDecodeError\<close>, whose \<open>doc\<close> attribute is the document being decoded.
\<close>

datatype json_decode_error = JSONDecodeError (doc: string)

datatype json_outcome = Returns pyval | Raises json_decode_error

text \<open>
  The request, as far as the parser reads it. The mappings are association lists (a
  lookup returns the first entry of a key); \<open>form\<close>, \<open>body\<close> and \<open>json\<close> are what
  awaiting the attribute of that name yields.
\<close>

record request =
  view_args :: "(string \<times> pyval) list"
  args :: "(string \<times> pyval) list"
  form :: "(string \<times> pyval) list"
  body :: string
  json :: json_outcome
  headers :: "(string \<times> pyval) list"
  cookies :: "(string \<times> pyval) list"
  files :: "(string \<times> pyval) list"
  mimetype :: string

text \<open>
  The parser object's mutable part is \<open>self._cache\<close>, a dictionary keyed by content
  kind (\<open>"post"\<close>, \<open>"json"\<close>). The state also logs, in order, every awaitable of the
  request that a resolver awaited, so that the number of body decodes can be counted.
\<close>

datatype await = AwaitBody | AwaitForm | AwaitJson

record state =
  cache :: "string \<rightharpoonup> pyval"
  awaited :: "await list"

text \<open>\<open>self._cache.get(k)\<close>: \<open>None\<close> when the key is absent.\<close>

definition cache_get :: "(string \<rightharpoonup> pyval) \<Rightarrow> string \<Rightarrow> pyval" where
  "cache_get c k = (case c k of None \<Rightarrow> PNone | Some v \<Rightarrow> v)"

section \<open>Exceptions\<close>

datatype validation_error = ValidationError (messages: "(string \<times> string list) list")

datatype exn = ValidationExc validation_error | JSONDecodeExc json_decode_error

text \<open>The keyword arguments \<open>abort\<close> attaches to the exception as \<open>err.data\<close>.\<close>

datatype kwarg =
    Messages "(string \<times> string list) list"
  | Schema schema
  | Headers "(string \<times> string) list option"

record http_exception =
  status_code :: int
  data :: "(string \<times> kwarg) list"
  exc :: "exn option"

datatype raised =
    HTTPException http_exception
  | KeyError string
  | ValueError string

section \<open>The module \<open>quartparser\<close>\<close>

text \<open>
  \<open>abort(http_status_code, exc=None, **kwargs)\<close>: \<open>quart.abort\<close> raises the
  \<open>HTTPException\<close> of the status code; the handler stores the keyword arguments and
  the originating exception on it and raises it again. The function returns the
  exception that is raised.
\<close>

definition abort :: "int \<Rightarrow> exn option \<Rightarrow> (string \<times> kwarg) list \<Rightarrow> http_exception" where
  "abort http_status_code e kwargs =
     \<lparr>status_code = http_status_code, data = kwargs, exc = e\<rparr>"

text \<open>
  \<open>core.is_json\<close> is a function of the validation library; the model takes it as the
  parameter \<open>is_json\<close>, a predicate on mimetypes.
\<close>

definition is_json_request :: "(string \<Rightarrow> bool) \<Rightarrow> request \<Rightarrow> bool" where
  "is_json_request is_json req = is_json (mimetype req)"

text \<open>
  Modelled from the spec: \<open>core.get_value\<close> is imported from the validation library
  and is not part of the sources. The spec's contract for an extraction is that it
  returns the raw value, or the missing sentinel when the value is absent. Data that is
  not a mapping holds no named values. The field descriptor and the flag
  \<open>allow_many_nested\<close> are passed as the source passes them.
\<close>

fun get_value :: "pyval \<Rightarrow> string \<Rightarrow> field \<Rightarrow> bool \<Rightarrow> raw" where
  "get_value (PDict kvs) name fld allow_many_nested =
     (case map_of kvs name of None \<Rightarrow> Missing | Some v \<Rightarrow> Val v)"
| "get_value d name fld allow_many_nested = Missing"

definition parse_view_args :: "request \<Rightarrow> string \<Rightarrow> field \<Rightarrow> raw" where
  "parse_view_args req name fld = get_value (PDict (view_args req)) name fld False"

text \<open>
  \<open>parse_form\<close>: the form is awaited when \<open>self._cache.get("post")\<close> is \<open>None\<close>;
  the value is then read from \<open>self._cache["post"]\<close>, a \<open>KeyError\<close> if the key were
  absent.
\<close>

definition parse_form :: "request \<Rightarrow> string \<Rightarrow> field \<Rightarrow> state \<Rightarrow> (raised + raw) \<times> state" where
  "parse_form req name fld s =
     (let post_data = cache_get (cache s) ''post'';
          s1 = (if post_data = PNone
                then s\<lparr>cache := (cache s)(''post'' \<mapsto> PDict (form req)),
                       awaited := awaited s @ [AwaitForm]\<rparr>
                else s)
      in case cache s1 ''post'' of
           None \<Rightarrow> (Inl (KeyError ''post''), s1)
         | Some d \<Rightarrow> (Inr (get_value d name fld False), s1))"

definition handle_invalid_json_error :: "json_decode_error \<Rightarrow> request \<Rightarrow> http_exception" where
  "handle_invalid_json_error error req =
     abort 400 (Some (JSONDecodeExc error))
       [(''messages'', Messages [(''json'', [''Invalid JSON body.''])])]"

text \<open>
  \<open>parse_json\<close>: the body is awaited first; an empty body or a mimetype that is not
  JSON returns \<open>missing\<close>. Otherwise the document is taken from the cache, or decoded
  when \<open>self._cache.get("json")\<close> is \<open>None\<close>; a decode error returns \<open>missing\<close>
  when its \<open>doc\<close> is empty and aborts otherwise; a decoded document is stored.
\<close>

definition parse_json ::
  "(string \<Rightarrow> bool) \<Rightarrow> request \<Rightarrow> string \<Rightarrow> field \<Rightarrow> state \<Rightarrow> (raised + raw) \<times> state" where
  "parse_json is_json req name fld s =
     (let s1 = s\<lparr>awaited := awaited s @ [AwaitBody]\<rparr> in
      if \<not> (body req \<noteq> [] \<and> is_json_request is_json req) then (Inr Missing, s1)
      else
        let json_data = cache_get (cache s1) ''json'' in
        if json_data = PNone then
          (let s2 = s1\<lparr>awaited := awaited s1 @ [AwaitJson]\<rparr> in
           case json req of
             Raises e \<Rightarrow>
               if doc e = [] then (Inr Missing, s2)
               else (Inl (HTTPException (handle_invalid_json_error e req)), s2)
           | Returns decoded \<Rightarrow>
               (Inr (get_value decoded name fld True),
                s2\<lparr>cache := (cache s2)(''json'' \<mapsto> decoded)\<rparr>))
        else (Inr (get_value json_data name fld True), s1))"

definition parse_querystring :: "request \<Rightarrow> string \<Rightarrow> field \<Rightarrow> raw" where
  "parse_querystring req name fld = get_value (PDict (args req)) name fld False"

definition parse_headers :: "request \<Rightarrow> string \<Rightarrow> field \<Rightarrow> raw" where
  "parse_headers req name fld = get_value (PDict (headers req)) name fld False"

definition parse_cookies :: "request \<Rightarrow> string \<Rightarrow> field \<Rightarrow> raw" where
  "parse_cookies req name fld = get_value (PDict (cookies req)) name fld False"

definition parse_files :: "request \<Rightarrow> string \<Rightarrow> field \<Rightarrow> raw" where
  "parse_files req name fld = get_value (PDict (files req)) name fld False"

text \<open>
  Modelled from the spec: \<open>DEFAULT_VALIDATION_STATUS\<close> is inherited from the
  validation library's parser class and is not part of the sources. The spec gives the
  default status code of a validation failure as 422.
\<close>

definition DEFAULT_VALIDATION_STATUS :: int where
  "DEFAULT_VALIDATION_STATUS = 422"

text \<open>
  \<open>handle_error\<close>: \<open>error_status_code or self.DEFAULT_VALIDATION_STATUS\<close> takes the
  default when the caller's status code is \<open>None\<close> or \<open>0\<close>, the two falsy values of
  an optional integer.
\<close>

definition handle_error ::
  "validation_error \<Rightarrow> request \<Rightarrow> schema \<Rightarrow> int option \<Rightarrow> (string \<times> string) list option
     \<Rightarrow> http_exception" where
  "handle_error error req schema error_status_code error_headers =
     (let status_code =
            (case error_status_code of
               None \<Rightarrow> DEFAULT_VALIDATION_STATUS
             | Some c \<Rightarrow> if c = 0 then DEFAULT_VALIDATION_STATUS else c)
      in abort status_code (Some (ValidationExc error))
           [(''messages'', Messages (messages error)),
            (''schema'', Schema schema),
            (''headers'', Headers error_headers)])"

text \<open>
  \<open>__location_map__ = dict(view_args="parse_view_args", **core.Parser.__location_map__)\<close>:
  the table from location names to the names of the resolver methods.

  Modelled from the spec: \<open>core.Parser.__location_map__\<close> belongs to the validation
  library and is not part of the sources. The spec lists its locations: query string,
  form, JSON body, headers, cookies and files.
\<close>

definition core_location_map :: "(string \<times> string) list" where
  "core_location_map =
     [(''json'', ''parse_json''),
      (''querystring'', ''parse_querystring''),
      (''query'', ''parse_querystring''),
      (''form'', ''parse_form''),
      (''headers'', ''parse_headers''),
      (''cookies'', ''parse_cookies''),
      (''files'', ''parse_files'')]"

definition location_map :: "(string \<times> string) list" where
  "location_map = (''view_args'', ''parse_view_args'') # core_location_map"

section \<open>The parse operation\<close>

type_synonym resolver = "request \<Rightarrow> string \<Rightarrow> field \<Rightarrow> state \<Rightarrow> (raised + raw) \<times> state"

text \<open>
  The method of the parser object with a given name. The five resolvers that are plain
  methods neither read nor write the parser's state.
\<close>

definition resolver_method :: "(string \<Rightarrow> bool) \<Rightarrow> string \<Rightarrow> resolver option" where
  "resolver_method is_json m =
     (if m = ''parse_view_args'' then Some (\<lambda>req name fld s. (Inr (parse_view_args req name fld), s))
      else if m = ''parse_form'' then Some parse_form
      else if m = ''parse_json'' then Some (parse_json is_json)
      else if m = ''parse_querystring'' then Some (\<lambda>req name fld s. (Inr (parse_querystring req name fld), s))
      else if m = ''parse_headers'' then Some (\<lambda>req name fld s. (Inr (parse_headers req name fld), s))
      else if m = ''parse_cookies'' then Some (\<lambda>req name fld s. (Inr (parse_cookies req name fld), s))
      else if m = ''parse_files'' then Some (\<lambda>req name fld s. (Inr (parse_files req name fld), s))
      else None)"

text \<open>
  Modelled from the spec: the parse operation of the validation library (the loop over
  the schema's fields, the dispatch on a field's location, the validation and coercion
  of the raw values) is not part of the sources. By the spec, for each field the
  location's extraction function is called; the raw value passes through the field's
  validation and coercion; the result maps field names to validated values; an absent
  optional field is omitted and an absent required field is a validation error naming
  it; all per-field failures are collected into one structured error, except malformed
  JSON, which short-circuits; the cache lives as long as the request's parse.
\<close>

definition parse_arg ::
  "(string \<Rightarrow> bool) \<Rightarrow> string \<Rightarrow> field \<Rightarrow> request \<Rightarrow> state \<Rightarrow> (raised + raw) \<times> state" where
  "parse_arg is_json name fld req s =
     (case map_of location_map (location fld) of
        None \<Rightarrow> (Inl (ValueError (location fld)), s)
      | Some m \<Rightarrow>
          (case resolver_method is_json m of
             None \<Rightarrow> (Inl (ValueError (location fld)), s)
           | Some f \<Rightarrow> f req name fld s))"

fun parse_request ::
  "(string \<Rightarrow> bool) \<Rightarrow> schema \<Rightarrow> request \<Rightarrow> state \<Rightarrow> (raised + (string \<times> raw) list) \<times> state" where
  "parse_request is_json [] req s = (Inr [], s)"
| "parse_request is_json ((name, fld) # rest) req s =
     (case parse_arg is_json name fld req s of
        (Inl e, s1) \<Rightarrow> (Inl e, s1)
      | (Inr v, s1) \<Rightarrow>
          (case parse_request is_json rest req s1 of
             (Inl e, s2) \<Rightarrow> (Inl e, s2)
           | (Inr vs, s2) \<Rightarrow> (Inr ((name, v) # vs), s2)))"

definition digit_of :: "char \<Rightarrow> nat option" where
  "digit_of c =
     map_of [(CHR ''0'', 0), (CHR ''1'', 1), (CHR ''2'', 2), (CHR ''3'', 3), (CHR ''4'', 4),
             (CHR ''5'', 5), (CHR ''6'', 6), (CHR ''7'', 7), (CHR ''8'', 8), (CHR ''9'', 9)] c"

fun nat_of_digits :: "nat \<Rightarrow> string \<Rightarrow> nat option" where
  "nat_of_digits acc [] = Some acc"
| "nat_of_digits acc (c # cs) =
     (case digit_of c of None \<Rightarrow> None | Some d \<Rightarrow> nat_of_digits (10 * acc + d) cs)"

definition int_of_string :: "string \<Rightarrow> int option" where
  "int_of_string str =
     (case str of
        [] \<Rightarrow> None
      | c # cs \<Rightarrow>
          if c = CHR ''-''
          then (if cs = [] then None else map_option (\<lambda>n. - int n) (nat_of_digits 0 cs))
          else map_option int (nat_of_digits 0 str))"

fun deserialize :: "ftype \<Rightarrow> pyval \<Rightarrow> string + pyval" where
  "deserialize Integer_field (PInt n) = Inr (PInt n)"
| "deserialize Integer_field (PStr str) =
     (case int_of_string str of
        None \<Rightarrow> Inl ''Not a valid integer.''
      | Some n \<Rightarrow> Inr (PInt n))"
| "deserialize Integer_field v = Inl ''Not a valid integer.''"
| "deserialize String_field (PStr str) = Inr (PStr str)"
| "deserialize String_field v = Inl ''Not a valid string.''"

fun load :: "schema \<Rightarrow> (string \<times> raw) list \<Rightarrow> (string \<times> string list) list \<times> (string \<times> pyval) list" where
  "load ((name, fld) # rest) ((n, v) # vs) =
     (case load rest vs of
        (errs, vals) \<Rightarrow>
          (case v of
             Missing \<Rightarrow>
               if required fld
               then ((name, [''Missing data for required field.'']) # errs, vals)
               else (errs, vals)
           | Val x \<Rightarrow>
               (case deserialize (ftype fld) x of
                  Inl msg \<Rightarrow> ((name, [msg]) # errs, vals)
                | Inr y \<Rightarrow> (errs, (name, y) # vals))))"
| "load schema vs = ([], [])"

definition clear_cache :: "state \<Rightarrow> state" where
  "clear_cache s = s\<lparr>cache := Map.empty\<rparr>"

definition parse ::
  "(string \<Rightarrow> bool) \<Rightarrow> schema \<Rightarrow> request \<Rightarrow> int option \<Rightarrow> (string \<times> string) list option
     \<Rightarrow> state \<Rightarrow> (raised + (string \<times> pyval) list) \<times> state" where
  "parse is_json schema req error_status_code error_headers s =
     (case parse_request is_json schema req (clear_cache s) of
        (Inl e, s1) \<Rightarrow> (Inl e, clear_cache s1)
      | (Inr raws, s1) \<Rightarrow>
          (case load schema raws of
             ([], vals) \<Rightarrow> (Inr vals, clear_cache s1)
           | (errs, vals) \<Rightarrow>
               (Inl (HTTPException
                  (handle_error (ValidationError errs) req schema error_status_code
                     error_headers)),
                clear_cache s1)))"

section \<open>Notions the properties are stated with\<close>

text \<open>
  A cache holds nothing of another request: an entry of kind \<open>"post"\<close> is this
  request's form and an entry of kind \<open>"json"\<close> is this request's decoded document.
  The empty cache, with which a parse starts, is such a cache.
\<close>

definition request_scoped :: "request \<Rightarrow> (string \<rightharpoonup> pyval) \<Rightarrow> bool" where
  "request_scoped req c =
     ((case c ''post'' of None \<Rightarrow> True | Some v \<Rightarrow> v = PDict (form req)) \<and>
      (case c ''json'' of None \<Rightarrow> True | Some v \<Rightarrow> json req = Returns v))"

text \<open>
  The value a request's JSON body holds under a name: none when the body does not
  decode, or decodes to something that is not a mapping.
\<close>

definition json_value :: "request \<Rightarrow> string \<Rightarrow> pyval option" where
  "json_value req name =
     (case json req of
        Returns (PDict kvs) \<Rightarrow> map_of kvs name
      | _ \<Rightarrow> None)"

text \<open>
  The request whose JSON resolver aborts: a non-empty body of a JSON mimetype whose
  decoding fails on a non-empty document.
\<close>

definition invalid_json_body :: "(string \<Rightarrow> bool) \<Rightarrow> request \<Rightarrow> bool" where
  "invalid_json_body is_json req =
     (body req \<noteq> [] \<and> is_json (mimetype req) \<and>
      (case json req of Raises e \<Rightarrow> doc e \<noteq> [] | Returns v \<Rightarrow> False))"

section \<open>Concrete requests\<close>

definition empty_state :: state where
  "empty_state = \<lparr>cache = Map.empty, awaited = []\<rparr>"

definition application_json :: "string \<Rightarrow> bool" where
  "application_json m = (m = ''application/json'')"

definition json_field :: field where
  "json_field = \<lparr>ftype = String_field, required = False, location = ''json''\<rparr>"

definition form_field :: field where
  "form_field = \<lparr>ftype = String_field, required = False, location = ''form''\<rparr>"

definition json_request :: "string \<Rightarrow> json_outcome \<Rightarrow> request" where
  "json_request b j =
     \<lparr>view_args = [], args = [], form = [], body = b, json = j, headers = [],
      cookies = [], files = [], mimetype = ''application/json''\<rparr>"

definition form_request :: "(string \<times> pyval) list \<Rightarrow> request" where
  "form_request f =
     \<lparr>view_args = [], args = [], form = f, body = [], json = Raises (JSONDecodeError []),
      headers = [], cookies = [], files = [],
      mimetype = ''application/x-www-form-urlencoded''\<rparr>"

text \<open>
  The request of path \<open>/users/42\<close> routed by \<open>/users/<id>\<close>: the framework's router
  puts the path segment, a string, into \<open>view_args\<close> under \<open>id\<close>.
\<close>

definition users_request :: request where
  "users_request =
     \<lparr>view_args = [(''id'', PStr ''42'')], args = [], form = [], body = [],
      json = Raises (JSONDecodeError []), headers = [], cookies = [], files = [],
      mimetype = []\<rparr>"

definition users_id_field :: field where
  "users_id_field = \<lparr>ftype = Integer_field, required = False, location = ''view_args''\<rparr>"

definition users_schema :: schema where
  "users_schema = [(''id'', users_id_field)]"

definition plain_request :: "string \<Rightarrow> request" where
  "plain_request b =
     \<lparr>view_args = [], args = [], form = [], body = b, json = Returns PNone, headers = [],
      cookies = [], files = [], mimetype = ''text/plain''\<rparr>"

text \<open>A JSON request whose body \<open>{\<close> does not decode.\<close>

definition malformed_request :: request where
  "malformed_request = json_request ''{'' (Raises (JSONDecodeError ''{''))"

text \<open>A JSON request whose body \<open>null\<close> decodes to \<open>None\<close>.\<close>

definition null_request :: request where
  "null_request = json_request ''null'' (Returns PNone)"

text \<open>A JSON request whose body decodes to a mapping with the one key \<open>name\<close>.\<close>

definition named_request :: "pyval \<Rightarrow> request" where
  "named_request v = json_request ''{}'' (Returns (PDict [(''name'', v)]))"

section \<open>Counting body decodes\<close>

text \<open>
  The decodes of a kind that a state has seen, and the decodes it can still see at
  most: one more when the cache has no usable entry of the kind.
\<close>

definition form_decodes :: "state \<Rightarrow> nat" where
  "form_decodes s = count_list (awaited s) AwaitForm"

definition json_decodes :: "state \<Rightarrow> nat" where
  "json_decodes s = count_list (awaited s) AwaitJson"

definition form_budget :: "state \<Rightarrow> nat" where
  "form_budget s = form_decodes s + (if cache_get (cache s) ''post'' = PNone then 1 else 0)"

definition json_budget :: "state \<Rightarrow> nat" where
  "json_budget s = json_decodes s + (if cache_get (cache s) ''json'' = PNone then 1 else 0)"

section \<open>The form resolver never raises\<close>

text \<open>
  The key \<open>"post"\<close> is present whenever \<open>self._cache["post"]\<close> is read: the form
  resolver returns a value read from the cached form, or from the request's form when
  nothing usable was cached, and changes the state only when it awaited the form.
\<close>

lemma parse_form_returns:
  "fst (parse_form req name fld s) =
     Inr (get_value (if cache_get (cache s) ''post'' = PNone then PDict (form req)
                     else cache_get (cache s) ''post'') name fld False)"
  by (auto simp: parse_form_def Let_def cache_get_def split: option.splits)

lemma parse_form_state:
  "snd (parse_form req name fld s) =
     (if cache_get (cache s) ''post'' = PNone
      then s\<lparr>cache := (cache s)(''post'' \<mapsto> PDict (form req)),
             awaited := awaited s @ [AwaitForm]\<rparr>
      else s)"
  by (auto simp: parse_form_def Let_def cache_get_def split: option.splits)

section \<open>The JSON resolver\<close>

text \<open>
  C2. For every request whose raw body is empty, parsing a JSON-located field returns
  the missing sentinel and neither raises nor aborts: the resolver returns right after
  awaiting the body, whatever the mimetype, the cache and the decoder would say, and
  leaves the cache as it was.
\<close>

theorem parse_json_empty_body_missing:
  "body req = [] \<Longrightarrow>
   parse_json is_json req name fld s = (Inr Missing, s\<lparr>awaited := awaited s @ [AwaitBody]\<rparr>)"
  by (simp add: parse_json_def)

theorem parse_json_empty_body_missing_witness:
  "body (json_request [] (Raises (JSONDecodeError []))) = [] \<and>
   parse_json application_json (json_request [] (Raises (JSONDecodeError []))) ''name''
     json_field empty_state
   = (Inr Missing, \<lparr>cache = Map.empty, awaited = [AwaitBody]\<rparr>)"
  using parse_json_empty_body_missing
    [of "json_request [] (Raises (JSONDecodeError []))" application_json "''name''"
        json_field empty_state]
  by (simp add: json_request_def empty_state_def)

text \<open>
  C1, as the claim states it, fails: the four conditions on the request do not decide
  the outcome when the cache holds a document. With the document another request's
  resolver stored still in the cache, the JSON resolver does not decode the malformed
  body at all and answers from the cached document instead of aborting.
\<close>

theorem parse_json_invalid_body_answered_from_cache:
  "body malformed_request \<noteq> [] \<and>
   application_json (mimetype malformed_request) \<and>
   json malformed_request = Raises (JSONDecodeError ''{'') \<and>
   doc (JSONDecodeError ''{'') \<noteq> [] \<and>
   fst (parse_json application_json malformed_request ''name'' json_field
          (snd (parse_json application_json (named_request (PStr ''Zed'')) ''name'' json_field
                  empty_state)))
     = Inr (Val (PStr ''Zed''))"
  by (simp add: parse_json_def malformed_request_def named_request_def json_request_def
        is_json_request_def application_json_def cache_get_def empty_state_def)

text \<open>
  C1, amended. For every request whose raw body is not empty, whose mimetype is a JSON
  mimetype and whose decoding fails on a non-empty document, parsing a JSON-located
  field aborts with status 400 and the message mapping
  \<open>{"json": ["Invalid JSON body."]}\<close>, provided the cache holds nothing of another
  request; the exception raised is none that the handler of validation errors raises.
\<close>

theorem parse_json_invalid_body_aborts:
  assumes "body req \<noteq> []" and "is_json (mimetype req)"
      and "json req = Raises e" and "doc e \<noteq> []"
      and "request_scoped req (cache s)"
  shows "fst (parse_json is_json req name fld s) =
           Inl (HTTPException
             \<lparr>status_code = 400,
              data = [(''messages'', Messages [(''json'', [''Invalid JSON body.''])])],
              exc = Some (JSONDecodeExc e)\<rparr>) \<and>
         (\<forall>error schema error_status_code error_headers.
            fst (parse_json is_json req name fld s) \<noteq>
              Inl (HTTPException (handle_error error req schema error_status_code error_headers)))"
  using assms
  by (auto simp: parse_json_def Let_def is_json_request_def request_scoped_def cache_get_def
        handle_invalid_json_error_def handle_error_def abort_def split: option.splits)

theorem parse_json_invalid_body_aborts_witness:
  "body malformed_request \<noteq> [] \<and>
   application_json (mimetype malformed_request) \<and>
   json malformed_request = Raises (JSONDecodeError ''{'') \<and>
   request_scoped malformed_request (cache empty_state) \<and>
   fst (parse_json application_json malformed_request ''name'' json_field empty_state) =
     Inl (HTTPException
       \<lparr>status_code = 400,
        data = [(''messages'', Messages [(''json'', [''Invalid JSON body.''])])],
        exc = Some (JSONDecodeExc (JSONDecodeError ''{''))\<rparr>)"
  using parse_json_invalid_body_aborts
    [of malformed_request application_json "JSONDecodeError ''{''" empty_state "''name''"
        json_field]
  by (simp add: malformed_request_def json_request_def application_json_def
        request_scoped_def empty_state_def)

text \<open>
  C9. For every request whose mimetype is not a JSON mimetype, parsing a JSON-located
  field returns the missing sentinel whatever the body holds; only the body has been
  awaited, so no JSON decoding was attempted, and nothing is raised.
\<close>

theorem parse_json_not_json_mimetype_missing:
  "\<not> is_json (mimetype req) \<Longrightarrow>
   parse_json is_json req name fld s = (Inr Missing, s\<lparr>awaited := awaited s @ [AwaitBody]\<rparr>)"
  by (simp add: parse_json_def is_json_request_def)

theorem parse_json_not_json_mimetype_missing_witness:
  "\<not> application_json (mimetype (plain_request ''[1, 2]'')) \<and>
   parse_json application_json (plain_request ''[1, 2]'') ''name'' json_field empty_state
   = (Inr Missing, \<lparr>cache = Map.empty, awaited = [AwaitBody]\<rparr>)"
  using parse_json_not_json_mimetype_missing
    [of application_json "plain_request ''[1, 2]''" "''name''" json_field empty_state]
  by (simp add: plain_request_def application_json_def empty_state_def)

text \<open>
  C10. \<open>parse_json\<close> stores a document in the cache only when decoding succeeds: with
  an empty body, and on every decode failure, the cache is left unchanged; whenever the
  cache changes, the decoder has returned a document and the change is that document
  stored under \<open>"json"\<close>.
\<close>

theorem parse_json_caches_only_decoded:
  "(body req = [] \<longrightarrow> cache (snd (parse_json is_json req name fld s)) = cache s) \<and>
   (\<forall>e. json req = Raises e \<longrightarrow> cache (snd (parse_json is_json req name fld s)) = cache s) \<and>
   (cache (snd (parse_json is_json req name fld s)) \<noteq> cache s \<longrightarrow>
      (\<exists>v. json req = Returns v \<and>
           cache (snd (parse_json is_json req name fld s)) = (cache s)(''json'' \<mapsto> v)))"
  by (auto simp: parse_json_def Let_def split: json_outcome.splits)

theorem parse_json_caches_only_decoded_witness:
  "json malformed_request = Raises (JSONDecodeError ''{'') \<and>
   cache (snd (parse_json application_json malformed_request ''name'' json_field empty_state))
     = cache empty_state \<and>
   cache (snd (parse_json application_json (json_request [] (Raises (JSONDecodeError [])))
                 ''name'' json_field empty_state)) = cache empty_state \<and>
   cache (snd (parse_json application_json (json_request ''{}'' (Returns (PDict [])))
                 ''name'' json_field empty_state))
     = (cache empty_state)(''json'' \<mapsto> PDict [])"
  using parse_json_caches_only_decoded
    [of malformed_request application_json "''name''" json_field empty_state]
    parse_json_caches_only_decoded
    [of "json_request [] (Raises (JSONDecodeError []))" application_json "''name''"
        json_field empty_state]
    parse_json_caches_only_decoded
    [of "json_request ''{}'' (Returns (PDict []))" application_json "''name''" json_field
        empty_state]
  by (simp add: malformed_request_def json_request_def parse_json_def is_json_request_def
        application_json_def cache_get_def empty_state_def)

section \<open>Aborting\<close>

text \<open>
  C4, as the claim states it, fails where the caller supplies the status code 0: the
  handler takes \<open>error_status_code or DEFAULT_VALIDATION_STATUS\<close>, and 0 is falsy, so
  the abort carries 422 and not the caller's code.
\<close>

theorem handle_error_status_override_zero:
  "status_code (handle_error (ValidationError [(''id'', [''Not a valid integer.''])])
      users_request users_schema (Some 0) None) = 422 \<and>
   status_code (handle_error (ValidationError [(''id'', [''Not a valid integer.''])])
      users_request users_schema (Some 0) None) \<noteq> 0"
  by (simp add: handle_error_def abort_def DEFAULT_VALIDATION_STATUS_def)

text \<open>
  C4, amended. When field-level validation fails, the handler aborts with status code
  422 when the caller supplies no status code or the status code 0, and with the
  caller's status code when a non-zero one is supplied; the abort carries the
  per-field message mapping of the validation error.
\<close>

theorem handle_error_status:
  "status_code (handle_error error req schema None error_headers) = 422 \<and>
   status_code (handle_error error req schema (Some 0) error_headers) = 422 \<and>
   (c \<noteq> 0 \<longrightarrow> status_code (handle_error error req schema (Some c) error_headers) = c) \<and>
   map_of (data (handle_error error req schema error_status_code error_headers)) ''messages''
     = Some (Messages (messages error))"
  by (simp add: handle_error_def abort_def DEFAULT_VALIDATION_STATUS_def Let_def)

theorem handle_error_status_witness:
  "status_code (handle_error (ValidationError [(''id'', [''Not a valid integer.''])])
      users_request users_schema None None) = 422 \<and>
   (400::int) \<noteq> 0 \<and>
   status_code (handle_error (ValidationError [(''id'', [''Not a valid integer.''])])
      users_request users_schema (Some 400) None) = 400 \<and>
   map_of (data (handle_error (ValidationError [(''id'', [''Not a valid integer.''])])
      users_request users_schema (Some 400) None)) ''messages''
     = Some (Messages [(''id'', [''Not a valid integer.''])])"
  using handle_error_status
    [of "ValidationError [(''id'', [''Not a valid integer.''])]" users_request users_schema
        None 400 "Some 400"]
  by simp

text \<open>
  C8. Whenever parsing aborts, the exception raised carries the message mapping in its
  \<open>data\<close> and the originating library exception in its \<open>exc\<close>: \<open>abort\<close> stores
  both as given; the handler of validation errors passes the error's per-field
  messages and the error; the handler of invalid JSON passes the fixed mapping and the
  decode error; and whatever the JSON resolver raises is such an abort.
\<close>

theorem abort_carries_messages_and_exception:
  "data (abort http_status_code e kwargs) = kwargs \<and>
   exc (abort http_status_code e kwargs) = e \<and>
   map_of (data (handle_error error req schema error_status_code error_headers)) ''messages''
     = Some (Messages (messages error)) \<and>
   exc (handle_error error req schema error_status_code error_headers)
     = Some (ValidationExc error) \<and>
   map_of (data (handle_invalid_json_error je req)) ''messages''
     = Some (Messages [(''json'', [''Invalid JSON body.''])]) \<and>
   exc (handle_invalid_json_error je req) = Some (JSONDecodeExc je) \<and>
   (\<forall>r. fst (parse_json is_json req name fld s) = Inl r \<longrightarrow>
      (\<exists>h d. r = HTTPException h \<and> json req = Raises d \<and>
         map_of (data h) ''messages'' = Some (Messages [(''json'', [''Invalid JSON body.''])]) \<and>
         exc h = Some (JSONDecodeExc d)))"
  by (auto simp: handle_error_def handle_invalid_json_error_def abort_def Let_def parse_json_def
        split: json_outcome.splits if_splits)

theorem abort_carries_messages_and_exception_witness:
  "\<exists>h. fst (parse_json application_json malformed_request ''name'' json_field empty_state)
         = Inl (HTTPException h) \<and>
       map_of (data h) ''messages'' = Some (Messages [(''json'', [''Invalid JSON body.''])]) \<and>
       exc h = Some (JSONDecodeExc (JSONDecodeError ''{''))"
proof -
  have run:
    "fst (parse_json application_json malformed_request ''name'' json_field empty_state)
       = Inl (HTTPException (handle_invalid_json_error (JSONDecodeError ''{'') malformed_request))"
    by (simp add: parse_json_def malformed_request_def json_request_def is_json_request_def
          application_json_def cache_get_def empty_state_def)
  have dec: "json malformed_request = Raises (JSONDecodeError ''{'')"
    by (simp add: malformed_request_def json_request_def)
  from run dec abort_carries_messages_and_exception
    [of 400 None "[]" "ValidationError []" malformed_request "[]" None None
        "JSONDecodeError ''{''" application_json "''name''" json_field empty_state]
  show ?thesis by auto
qed

section \<open>The scope of the cache\<close>

lemma request_scoped_empty: "request_scoped req Map.empty"
  by (simp add: request_scoped_def)

lemma request_scoped_parse_form:
  "request_scoped req (cache s) \<Longrightarrow> request_scoped req (cache (snd (parse_form req name fld s)))"
  by (auto simp: parse_form_state request_scoped_def split: option.splits)

lemma request_scoped_parse_json:
  "request_scoped req (cache s) \<Longrightarrow>
   request_scoped req (cache (snd (parse_json is_json req name fld s)))"
  by (auto simp: parse_json_def Let_def request_scoped_def
      split: option.splits json_outcome.splits)

lemma request_scoped_form_result:
  "request_scoped req (cache s) \<Longrightarrow>
   fst (parse_form req name fld s) = Inr (get_value (PDict (form req)) name fld False)"
  by (auto simp: parse_form_returns request_scoped_def cache_get_def split: option.splits)

lemma request_scoped_json_result:
  "request_scoped req (cache s) \<Longrightarrow> fst (parse_json is_json req name fld s) = Inr v \<Longrightarrow>
   v = Missing \<or> (\<exists>d. json req = Returns d \<and> v = get_value d name fld True)"
  by (auto simp: parse_json_def Let_def request_scoped_def cache_get_def
      split: option.splits json_outcome.splits if_splits)

text \<open>
  C5, as the claim states it, fails: the cache is an attribute of the parser object,
  which the module creates once, and its entries are keyed by content kind and not by
  request. When the form resolver runs for a second request on the state the first
  request's resolver left (the order of calls of two parses that overlap on the
  module's one parser), the second request is answered \<open>Ann\<close> from the first
  request's form, where its own form holds \<open>Bob\<close>.
\<close>

theorem parse_form_observes_other_request:
  "fst (parse_form (form_request [(''name'', PStr ''Bob'')]) ''name'' form_field
         (snd (parse_form (form_request [(''name'', PStr ''Ann'')]) ''name'' form_field
                empty_state)))
     = Inr (Val (PStr ''Ann'')) \<and>
   get_value (PDict (form (form_request [(''name'', PStr ''Bob'')]))) ''name'' form_field False
     = Val (PStr ''Bob'')"
  by (simp add: parse_form_def form_request_def empty_state_def cache_get_def Let_def)

text \<open>
  What a resolver answers, and the cache it leaves, depend on the state through the
  cache alone; so does the loop over the schema.
\<close>

lemma parse_form_cache_only:
  "cache s = cache s' \<Longrightarrow>
   fst (parse_form req name fld s) = fst (parse_form req name fld s') \<and>
   cache (snd (parse_form req name fld s)) = cache (snd (parse_form req name fld s'))"
  by (simp add: parse_form_returns parse_form_state)

lemma parse_json_cache_only:
  "cache s = cache s' \<Longrightarrow>
   fst (parse_json is_json req name fld s) = fst (parse_json is_json req name fld s') \<and>
   cache (snd (parse_json is_json req name fld s))
     = cache (snd (parse_json is_json req name fld s'))"
  by (auto simp: parse_json_def Let_def split: json_outcome.splits)

lemma resolver_method_cache_only:
  "resolver_method is_json m = Some f \<Longrightarrow> cache s = cache s' \<Longrightarrow>
   fst (f req name fld s) = fst (f req name fld s') \<and>
   cache (snd (f req name fld s)) = cache (snd (f req name fld s'))"
  using parse_form_cache_only [of s s' req name fld]
    parse_json_cache_only [of s s' is_json req name fld]
  by (auto simp: resolver_method_def split: if_splits)

lemma parse_arg_cache_only:
  "cache s = cache s' \<Longrightarrow>
   fst (parse_arg is_json name fld req s) = fst (parse_arg is_json name fld req s') \<and>
   cache (snd (parse_arg is_json name fld req s))
     = cache (snd (parse_arg is_json name fld req s'))"
  using resolver_method_cache_only [of is_json _ _ s s' req name fld]
  by (auto simp: parse_arg_def split: option.splits)

lemma parse_request_cache_only:
  "cache s = cache s' \<Longrightarrow>
   fst (parse_request is_json schema req s) = fst (parse_request is_json schema req s') \<and>
   cache (snd (parse_request is_json schema req s))
     = cache (snd (parse_request is_json schema req s'))"
proof (induction schema arbitrary: s s')
  case Nil
  then show ?case by simp
next
  case (Cons nf rest)
  obtain name fld where nf: "nf = (name, fld)" by (cases nf)
  obtain r s1 where step: "parse_arg is_json name fld req s = (r, s1)"
    by (cases "parse_arg is_json name fld req s")
  obtain r' s1' where step': "parse_arg is_json name fld req s' = (r', s1')"
    by (cases "parse_arg is_json name fld req s'")
  from parse_arg_cache_only [OF Cons.prems, of is_json name fld req] step step'
  have same: "r' = r" "cache s1 = cache s1'" by simp_all
  from step' same(1) have step'': "parse_arg is_json name fld req s' = (r, s1')" by simp
  show ?case
  proof (cases r)
    case (Inl x)
    with nf step step'' same(2) show ?thesis by simp
  next
    case (Inr v)
    obtain r2 s2 where rest: "parse_request is_json rest req s1 = (r2, s2)"
      by (cases "parse_request is_json rest req s1")
    obtain r2' s2' where rest': "parse_request is_json rest req s1' = (r2', s2')"
      by (cases "parse_request is_json rest req s1'")
    from Cons.IH [OF same(2)] rest rest'
    have eq: "r2' = r2" "cache s2 = cache s2'" by simp_all
    from rest' eq(1) have rest'': "parse_request is_json rest req s1' = (r2, s2')" by simp
    from nf step step'' Inr rest rest'' eq(2) show ?thesis
      by (cases r2) simp_all
  qed
qed

text \<open>A parse clears the cache first, so its outcome is the same from every state.\<close>

lemma parse_outcome_any_state:
  "fst (parse is_json schema req error_status_code error_headers s)
     = fst (parse is_json schema req error_status_code error_headers s')"
proof -
  have c: "cache (clear_cache s) = cache (clear_cache s')"
    by (simp add: clear_cache_def)
  obtain r s1 where a: "parse_request is_json schema req (clear_cache s) = (r, s1)"
    by (cases "parse_request is_json schema req (clear_cache s)")
  obtain r' s1' where b: "parse_request is_json schema req (clear_cache s') = (r', s1')"
    by (cases "parse_request is_json schema req (clear_cache s')")
  from parse_request_cache_only [OF c, of is_json schema req] a b have "r = r'" by simp
  with a b show ?thesis
    by (auto simp: parse_def split: sum.splits prod.splits list.splits)
qed

lemma parse_leaves_cache_empty:
  "cache (snd (parse is_json schema req error_status_code error_headers s)) = Map.empty"
  by (auto simp: parse_def clear_cache_def split: sum.splits prod.splits list.splits)

text \<open>
  C5, amended. The body decode cache is an attribute of the parser object, which every
  parse clears when it starts and when it ends. Two requests whose parses by the same
  parser do not overlap never observe each other's cached body content: the outcome of
  a parse that follows another request's parse is its outcome on a fresh parser, and a
  parse leaves the cache empty. A cleared cache holds nothing of another request, and
  within a parse, as long as the cache holds nothing of another request, the form
  resolver answers from the request's own form, the JSON resolver answers \<open>missing\<close>
  or from the request's own document, and after either the cache still holds nothing
  of another request.
\<close>

theorem sequential_parses_isolated:
  "fst (parse is_json schema req error_status_code error_headers
          (snd (parse is_json schema' req' error_status_code' error_headers' s)))
     = fst (parse is_json schema req error_status_code error_headers empty_state) \<and>
   cache (snd (parse is_json schema req error_status_code error_headers s)) = Map.empty \<and>
   request_scoped req (cache (clear_cache s)) \<and>
   (request_scoped req (cache s) \<longrightarrow>
      fst (parse_form req name fld s) = Inr (get_value (PDict (form req)) name fld False) \<and>
      request_scoped req (cache (snd (parse_form req name fld s))) \<and>
      request_scoped req (cache (snd (parse_json is_json req name fld s))) \<and>
      (\<forall>v. fst (parse_json is_json req name fld s) = Inr v \<longrightarrow>
         v = Missing \<or> (\<exists>d. json req = Returns d \<and> v = get_value d name fld True)))"
proof -
  have a: "fst (parse is_json schema req error_status_code error_headers
          (snd (parse is_json schema' req' error_status_code' error_headers' s)))
     = fst (parse is_json schema req error_status_code error_headers empty_state)"
    by (rule parse_outcome_any_state)
  have b: "cache (snd (parse is_json schema req error_status_code error_headers s)) = Map.empty"
    by (rule parse_leaves_cache_empty)
  have c: "request_scoped req (cache (clear_cache s))"
    by (simp add: clear_cache_def request_scoped_empty)
  have d: "request_scoped req (cache s) \<longrightarrow>
      fst (parse_form req name fld s) = Inr (get_value (PDict (form req)) name fld False) \<and>
      request_scoped req (cache (snd (parse_form req name fld s))) \<and>
      request_scoped req (cache (snd (parse_json is_json req name fld s))) \<and>
      (\<forall>v. fst (parse_json is_json req name fld s) = Inr v \<longrightarrow>
         v = Missing \<or> (\<exists>d. json req = Returns d \<and> v = get_value d name fld True))"
    using request_scoped_form_result request_scoped_parse_form request_scoped_parse_json
      request_scoped_json_result
    by blast
  from a b c d show ?thesis by blast
qed

theorem sequential_parses_isolated_witness:
  "fst (parse application_json [(''name'', form_field)] (form_request [(''name'', PStr ''Bob'')])
          None None
          (snd (parse application_json [(''name'', form_field)]
                  (form_request [(''name'', PStr ''Ann'')]) None None empty_state)))
     = Inr [(''name'', PStr ''Bob'')] \<and>
   request_scoped (form_request [(''name'', PStr ''Bob'')]) (cache empty_state) \<and>
   fst (parse_form (form_request [(''name'', PStr ''Bob'')]) ''name'' form_field empty_state)
     = Inr (Val (PStr ''Bob'')) \<and>
   request_scoped (form_request [(''name'', PStr ''Bob'')])
     (cache (snd (parse_form (form_request [(''name'', PStr ''Bob'')]) ''name'' form_field
                    empty_state)))"
  using sequential_parses_isolated
    [of application_json "[(''name'', form_field)]" "form_request [(''name'', PStr ''Bob'')]"
        None None "[(''name'', form_field)]" "form_request [(''name'', PStr ''Ann'')]"
        None None empty_state "''name''" form_field]
  by (simp add: request_scoped_def empty_state_def form_request_def parse_def parse_arg_def
        location_map_def core_location_map_def resolver_method_def form_field_def
        parse_form_def clear_cache_def cache_get_def)

section \<open>At most one decode\<close>

lemma form_budget_parse_form: "form_budget (snd (parse_form req name fld s)) = form_budget s"
  by (simp add: parse_form_state form_budget_def form_decodes_def cache_get_def)

lemma form_budget_parse_json:
  "form_budget (snd (parse_json is_json req name fld s)) = form_budget s"
  by (auto simp: parse_json_def Let_def form_budget_def form_decodes_def cache_get_def
      split: json_outcome.splits)

lemma json_budget_parse_form: "json_budget (snd (parse_form req name fld s)) = json_budget s"
  by (simp add: parse_form_state json_budget_def json_decodes_def cache_get_def)

lemma json_budget_parse_json:
  assumes "json req = Returns v" and "v \<noteq> PNone"
  shows "json_budget (snd (parse_json is_json req name fld s)) \<le> json_budget s"
  using assms
  by (auto simp: parse_json_def Let_def json_budget_def json_decodes_def cache_get_def)

lemma form_budget_method:
  "resolver_method is_json m = Some f \<Longrightarrow> form_budget (snd (f req name fld s)) = form_budget s"
  by (auto simp: resolver_method_def form_budget_parse_form form_budget_parse_json
      split: if_splits)

lemma json_budget_method:
  "resolver_method is_json m = Some f \<Longrightarrow> json req = Returns v \<Longrightarrow> v \<noteq> PNone \<Longrightarrow>
   json_budget (snd (f req name fld s)) \<le> json_budget s"
  by (auto simp: resolver_method_def json_budget_parse_form json_budget_parse_json
      split: if_splits)

lemma form_budget_parse_arg:
  "form_budget (snd (parse_arg is_json name fld req s)) = form_budget s"
  by (auto simp: parse_arg_def form_budget_method split: option.splits)

lemma json_budget_parse_arg:
  "json req = Returns v \<Longrightarrow> v \<noteq> PNone \<Longrightarrow>
   json_budget (snd (parse_arg is_json name fld req s)) \<le> json_budget s"
  by (auto simp: parse_arg_def json_budget_method split: option.splits)

text \<open>
  The loop over the schema threads the state through the resolvers, so the budget of
  the state it ends in is that of the state it started from: by induction on the
  schema, for every starting state.
\<close>

lemma form_budget_parse_request:
  "form_budget (snd (parse_request is_json schema req s)) = form_budget s"
proof (induction schema arbitrary: s)
  case Nil
  show ?case by simp
next
  case (Cons nf rest)
  obtain name fld where nf: "nf = (name, fld)" by (cases nf)
  obtain r s1 where step: "parse_arg is_json name fld req s = (r, s1)"
    by (cases "parse_arg is_json name fld req s")
  have s1: "form_budget s1 = form_budget s"
    using form_budget_parse_arg [of is_json name fld req s] step by simp
  show ?case
  proof (cases r)
    case (Inl e)
    with nf step s1 show ?thesis by simp
  next
    case (Inr v)
    obtain r2 s2 where rest: "parse_request is_json rest req s1 = (r2, s2)"
      by (cases "parse_request is_json rest req s1")
    have "form_budget s2 = form_budget s1"
      using Cons.IH [of s1] rest by simp
    with nf step s1 Inr rest show ?thesis
      by (cases r2) simp_all
  qed
qed

lemma json_budget_parse_request:
  assumes "json req = Returns v" and "v \<noteq> PNone"
  shows "json_budget (snd (parse_request is_json schema req s)) \<le> json_budget s"
proof (induction schema arbitrary: s)
  case Nil
  show ?case by simp
next
  case (Cons nf rest)
  obtain name fld where nf: "nf = (name, fld)" by (cases nf)
  obtain r s1 where step: "parse_arg is_json name fld req s = (r, s1)"
    by (cases "parse_arg is_json name fld req s")
  have s1: "json_budget s1 \<le> json_budget s"
    using json_budget_parse_arg [OF assms, of is_json name fld s] step by simp
  show ?case
  proof (cases r)
    case (Inl e)
    with nf step s1 show ?thesis by simp
  next
    case (Inr x)
    obtain r2 s2 where rest: "parse_request is_json rest req s1 = (r2, s2)"
      by (cases "parse_request is_json rest req s1")
    have "json_budget s2 \<le> json_budget s1"
      using Cons.IH [of s1] rest by simp
    with nf step s1 Inr rest show ?thesis
      by (cases r2) simp_all
  qed
qed

text \<open>
  Where the bound holds. The form is decoded at most once during a parse, and so is a
  JSON body whose decoding returns a document other than \<open>None\<close>: the first
  extraction leaves a usable entry in the cache, and a resolver that finds a usable
  entry of its kind decodes nothing and leaves the cache as it is.
\<close>

lemma body_decoded_at_most_once:
  "form_decodes (snd (parse_request is_json schema req s)) \<le> form_decodes s + 1 \<and>
   (\<forall>v. json req = Returns v \<and> v \<noteq> PNone \<longrightarrow>
      json_decodes (snd (parse_request is_json schema req s)) \<le> json_decodes s + 1) \<and>
   cache_get (cache (snd (parse_form req name fld s))) ''post'' \<noteq> PNone \<and>
   (cache_get (cache s) ''post'' \<noteq> PNone \<longrightarrow> snd (parse_form req name fld s) = s) \<and>
   (cache_get (cache s) ''json'' \<noteq> PNone \<longrightarrow>
      json_decodes (snd (parse_json is_json req name fld s)) = json_decodes s \<and>
      cache (snd (parse_json is_json req name fld s)) = cache s)"
proof -
  have "form_decodes (snd (parse_request is_json schema req s))
          \<le> form_budget (snd (parse_request is_json schema req s))"
    by (simp add: form_budget_def)
  also have "\<dots> = form_budget s" by (rule form_budget_parse_request)
  also have "\<dots> \<le> form_decodes s + 1" by (simp add: form_budget_def)
  finally have f: "form_decodes (snd (parse_request is_json schema req s)) \<le> form_decodes s + 1" .
  have j: "json_decodes (snd (parse_request is_json schema req s)) \<le> json_decodes s + 1"
    if "json req = Returns v" and "v \<noteq> PNone" for v
  proof -
    have "json_decodes (snd (parse_request is_json schema req s))
            \<le> json_budget (snd (parse_request is_json schema req s))"
      by (simp add: json_budget_def)
    also have "\<dots> \<le> json_budget s" using that by (rule json_budget_parse_request)
    also have "\<dots> \<le> json_decodes s + 1" by (simp add: json_budget_def)
    finally show ?thesis .
  qed
  have p: "cache_get (cache (snd (parse_form req name fld s))) ''post'' \<noteq> PNone"
    by (simp add: parse_form_state cache_get_def)
  have q: "cache_get (cache s) ''post'' \<noteq> PNone \<longrightarrow> snd (parse_form req name fld s) = s"
    by (simp add: parse_form_state)
  have r: "cache_get (cache s) ''json'' \<noteq> PNone \<longrightarrow>
      json_decodes (snd (parse_json is_json req name fld s)) = json_decodes s \<and>
      cache (snd (parse_json is_json req name fld s)) = cache s"
    by (auto simp: parse_json_def Let_def json_decodes_def)
  from f j p q r show ?thesis by blast
qed

text \<open>
  A decode that fails is not cached, but it is not repeated either when the error's
  document is the body that was decoded: the body is not empty where the decoder is
  awaited, so the resolver aborts, and the abort ends the loop over the schema.
\<close>

lemma json_decodes_parse_form: "json_decodes (snd (parse_form req name fld s)) = json_decodes s"
  by (simp add: parse_form_state json_decodes_def)

lemma json_decodes_parse_json_raises:
  assumes "json req = Raises e" and "doc e = body req"
  shows "(\<exists>x. fst (parse_json is_json req name fld s) = Inl x \<and>
              json_decodes (snd (parse_json is_json req name fld s)) = json_decodes s + 1) \<or>
         (\<exists>v. fst (parse_json is_json req name fld s) = Inr v \<and>
              json_decodes (snd (parse_json is_json req name fld s)) = json_decodes s)"
  using assms by (auto simp: parse_json_def Let_def json_decodes_def)

lemma json_decodes_method_raises:
  assumes "resolver_method is_json m = Some f" and "json req = Raises e" and "doc e = body req"
  shows "(\<exists>x. fst (f req name fld s) = Inl x \<and>
              json_decodes (snd (f req name fld s)) \<le> json_decodes s + 1) \<or>
         (\<exists>v. fst (f req name fld s) = Inr v \<and>
              json_decodes (snd (f req name fld s)) = json_decodes s)"
proof (cases "m = ''parse_json''")
  case True
  with assms(1) have "f = parse_json is_json" by (simp add: resolver_method_def)
  with json_decodes_parse_json_raises [OF assms(2,3), of is_json name fld s]
  show ?thesis by auto
next
  case False
  with assms(1) show ?thesis
    by (auto simp: resolver_method_def parse_form_returns json_decodes_parse_form
        split: if_splits)
qed

lemma json_decodes_parse_arg_raises:
  assumes "json req = Raises e" and "doc e = body req"
  shows "(\<exists>x. fst (parse_arg is_json name fld req s) = Inl x \<and>
              json_decodes (snd (parse_arg is_json name fld req s)) \<le> json_decodes s + 1) \<or>
         (\<exists>v. fst (parse_arg is_json name fld req s) = Inr v \<and>
              json_decodes (snd (parse_arg is_json name fld req s)) = json_decodes s)"
proof (cases "map_of location_map (location fld)")
  case None
  then show ?thesis by (simp add: parse_arg_def)
next
  case (Some m)
  show ?thesis
  proof (cases "resolver_method is_json m")
    case None
    with Some show ?thesis by (simp add: parse_arg_def)
  next
    case (Some f)
    with \<open>map_of location_map (location fld) = Some m\<close>
    have "parse_arg is_json name fld req s = f req name fld s"
      by (simp add: parse_arg_def)
    with json_decodes_method_raises [OF Some assms, of name fld s] show ?thesis by simp
  qed
qed

lemma json_decodes_parse_request_raises:
  assumes "json req = Raises e" and "doc e = body req"
  shows "json_decodes (snd (parse_request is_json schema req s)) \<le> json_decodes s + 1"
proof (induction schema arbitrary: s)
  case Nil
  show ?case by simp
next
  case (Cons nf rest)
  obtain name fld where nf: "nf = (name, fld)" by (cases nf)
  obtain r s1 where step: "parse_arg is_json name fld req s = (r, s1)"
    by (cases "parse_arg is_json name fld req s")
  show ?case
  proof (cases r)
    case (Inl x)
    with json_decodes_parse_arg_raises [OF assms, of is_json name fld s] step nf
    show ?thesis by simp
  next
    case (Inr v)
    with json_decodes_parse_arg_raises [OF assms, of is_json name fld s] step
    have same: "json_decodes s1 = json_decodes s" by simp
    obtain r2 s2 where rest: "parse_request is_json rest req s1 = (r2, s2)"
      by (cases "parse_request is_json rest req s1")
    have "json_decodes s2 \<le> json_decodes s1 + 1"
      using Cons.IH [of s1] rest by simp
    with nf step Inr rest same show ?thesis
      by (cases r2) simp_all
  qed
qed

text \<open>
  C3. For every request and every schema that references the body in two or more
  fields, the body is decoded at most once per content kind during the parse: the
  first extraction populates the cache and every later extraction of the kind reuses
  the cached structure. The code keeps this for the form, which two form-located
  fields decode once, and misses it for a JSON body that decodes to \<open>None\<close>: the
  document is stored, but \<open>self._cache.get("json")\<close> is then \<open>None\<close> as for an empty
  cache, so each of two JSON-located fields awaits the decoder; both get \<open>missing\<close>.
\<close>

theorem json_null_decoded_for_each_field:
  "body null_request \<noteq> [] \<and>
   application_json (mimetype null_request) \<and>
   json null_request = Returns PNone \<and>
   cache (snd (parse_json application_json null_request ''first'' json_field empty_state))
     ''json'' = Some PNone \<and>
   json_decodes (snd (parse_json application_json null_request ''second'' json_field
       (snd (parse_json application_json null_request ''first'' json_field empty_state)))) = 2 \<and>
   fst (parse_request application_json [(''first'', json_field), (''second'', json_field)]
          null_request empty_state)
     = Inr [(''first'', Missing), (''second'', Missing)] \<and>
   json_decodes (snd (parse_request application_json
       [(''first'', json_field), (''second'', json_field)] null_request empty_state)) = 2 \<and>
   form_decodes (snd (parse_request application_json
       [(''first'', form_field), (''second'', form_field)]
       (form_request [(''first'', PStr ''Ann'')]) empty_state)) = 1"
  by (simp add: json_decodes_def form_decodes_def parse_arg_def location_map_def
        core_location_map_def resolver_method_def json_field_def form_field_def parse_json_def
        parse_form_def null_request_def json_request_def form_request_def is_json_request_def
        application_json_def cache_get_def empty_state_def)

section \<open>Absent values\<close>

lemma get_value_json_absent:
  "json_value req name = None \<Longrightarrow> json req = Returns d \<Longrightarrow> get_value d name fld b = Missing"
  by (cases d) (auto simp: json_value_def)

lemma parse_form_absent:
  assumes "request_scoped req (cache s)" and "map_of (form req) name = None"
  shows "fst (parse_form req name fld s) = Inr Missing"
  using assms
  by (auto simp: parse_form_def Let_def cache_get_def request_scoped_def split: option.splits)

lemma parse_form_cache_frame:
  "k \<noteq> ''post'' \<Longrightarrow> cache (snd (parse_form req name fld s)) k = cache s k"
  by (auto simp: parse_form_def Let_def split: option.splits)

lemma parse_json_cache_frame:
  "k \<noteq> ''json'' \<Longrightarrow> cache (snd (parse_json is_json req name fld s)) k = cache s k"
  by (auto simp: parse_json_def Let_def split: json_outcome.splits)

lemma parse_json_absent:
  assumes "request_scoped req (cache s)" and "json_value req name = None"
      and "\<not> invalid_json_body is_json req"
  shows "fst (parse_json is_json req name fld s) = Inr Missing"
proof (cases "json req")
  case (Returns d)
  with assms(1) have c: "cache_get (cache s) ''json'' = PNone \<or> cache_get (cache s) ''json'' = d"
    by (auto simp: request_scoped_def cache_get_def split: option.splits)
  have "get_value d name fld True = Missing"
    using get_value_json_absent [OF assms(2) Returns] .
  with c Returns show ?thesis
    by (auto simp: parse_json_def Let_def)
next
  case (Raises e)
  with assms(1) have c: "cache_get (cache s) ''json'' = PNone"
    by (auto simp: request_scoped_def cache_get_def split: option.splits)
  with Raises assms(3) show ?thesis
    by (auto simp: parse_json_def Let_def invalid_json_body_def is_json_request_def)
qed

text \<open>
  C7, as the claim states it, fails for the JSON resolver: on a JSON request whose
  non-empty body does not decode, the body holds no value under any name, and the
  resolver does not return the missing sentinel but raises the abort of invalid JSON.
\<close>

theorem parse_json_raises_when_absent:
  "json_value malformed_request ''name'' = None \<and>
   fst (parse_json application_json malformed_request ''name'' json_field empty_state)
     = Inl (HTTPException
              (handle_invalid_json_error (JSONDecodeError ''{'') malformed_request)) \<and>
   fst (parse_json application_json malformed_request ''name'' json_field empty_state)
     \<noteq> Inr Missing"
  by (simp add: json_value_def parse_json_def malformed_request_def json_request_def
        is_json_request_def application_json_def cache_get_def empty_state_def)

text \<open>
  C7, amended. For every request in which the named value is absent from the location,
  the resolvers of the query string, the headers, the cookies, the path variables and
  the files return the missing sentinel; they are functions of the request alone. As
  long as the cache holds nothing of another request, the form resolver returns the
  missing sentinel, and so does the JSON resolver unless the body is non-empty, of a
  JSON mimetype and fails to decode on a non-empty document (then it aborts, see C1).
  The form resolver changes no cache entry but \<open>"post"\<close>, the JSON resolver none but
  \<open>"json"\<close>.
\<close>

theorem resolvers_missing_when_absent:
  "(map_of (args req) name = None \<longrightarrow> parse_querystring req name fld = Missing) \<and>
   (map_of (headers req) name = None \<longrightarrow> parse_headers req name fld = Missing) \<and>
   (map_of (cookies req) name = None \<longrightarrow> parse_cookies req name fld = Missing) \<and>
   (map_of (view_args req) name = None \<longrightarrow> parse_view_args req name fld = Missing) \<and>
   (map_of (files req) name = None \<longrightarrow> parse_files req name fld = Missing) \<and>
   (request_scoped req (cache s) \<and> map_of (form req) name = None \<longrightarrow>
      fst (parse_form req name fld s) = Inr Missing) \<and>
   (request_scoped req (cache s) \<and> json_value req name = None \<and>
    \<not> invalid_json_body is_json req \<longrightarrow>
      fst (parse_json is_json req name fld s) = Inr Missing) \<and>
   (\<forall>k. k \<noteq> ''post'' \<longrightarrow> cache (snd (parse_form req name fld s)) k = cache s k) \<and>
   (\<forall>k. k \<noteq> ''json'' \<longrightarrow> cache (snd (parse_json is_json req name fld s)) k = cache s k)"
  using parse_form_absent [of req s name fld] parse_json_absent [of req s name is_json fld]
    parse_form_cache_frame [of _ req name fld s]
    parse_json_cache_frame [of _ is_json req name fld s]
  by (simp add: parse_querystring_def parse_headers_def parse_cookies_def parse_view_args_def
        parse_files_def)

theorem resolvers_missing_when_absent_witness:
  "map_of (args users_request) ''name'' = None \<and>
   parse_querystring users_request ''name'' json_field = Missing \<and>
   parse_headers users_request ''name'' json_field = Missing \<and>
   parse_cookies users_request ''name'' json_field = Missing \<and>
   parse_view_args users_request ''name'' json_field = Missing \<and>
   parse_files users_request ''name'' json_field = Missing \<and>
   request_scoped users_request (cache empty_state) \<and>
   \<not> invalid_json_body application_json users_request \<and>
   fst (parse_form users_request ''name'' json_field empty_state) = Inr Missing \<and>
   fst (parse_json application_json users_request ''name'' json_field empty_state)
     = Inr Missing \<and>
   cache (snd (parse_form users_request ''name'' json_field empty_state)) ''json''
     = cache empty_state ''json''"
  using resolvers_missing_when_absent
    [of users_request "''name''" json_field empty_state application_json]
  by (simp add: users_request_def request_scoped_def empty_state_def invalid_json_body_def
        json_value_def)

section \<open>Path variables\<close>

lemma parse_view_args_pulls:
  "parse_view_args req name fld =
     (case map_of (view_args req) name of None \<Rightarrow> Missing | Some v \<Rightarrow> Val v)"
  by (simp add: parse_view_args_def)

lemma parse_arg_view_args:
  "location fld = ''view_args'' \<Longrightarrow>
   parse_arg is_json name fld req s = (Inr (parse_view_args req name fld), s)"
  by (simp add: parse_arg_def location_map_def resolver_method_def)

text \<open>
  C6. \<open>parse_view_args\<close> pulls the named value from the request's \<open>view_args\<close>
  mapping, for every request and name, and it is the resolver of the location
  \<open>view_args\<close>; so for every request whose \<open>view_args\<close> hold a decimal string under a
  name, parsing a schema of that one name, of integer type and location \<open>view_args\<close>,
  succeeds and returns the mapping of the name to the integer. For the route
  \<open>/users/<id>\<close>, the schema \<open>{id: integer, location: view_args}\<close> and the request of
  path \<open>/users/42\<close>, parsing succeeds and returns the mapping \<open>{"id": 42}\<close>.
\<close>

theorem integer_parsed_from_view_args:
  "parse_view_args req name fld =
     (case map_of (view_args req) name of None \<Rightarrow> Missing | Some v \<Rightarrow> Val v) \<and>
   map_of location_map ''view_args'' = Some ''parse_view_args'' \<and>
   (location fld = ''view_args'' \<longrightarrow>
      parse_arg is_json name fld req s = (Inr (parse_view_args req name fld), s)) \<and>
   (\<forall>str n. location fld = ''view_args'' \<and> ftype fld = Integer_field \<and>
      map_of (view_args req) name = Some (PStr str) \<and> int_of_string str = Some n \<longrightarrow>
      fst (parse is_json [(name, fld)] req error_status_code error_headers s)
        = Inr [(name, PInt n)]) \<and>
   parse_view_args users_request ''id'' users_id_field = Val (PStr ''42'') \<and>
   fst (parse is_json users_schema users_request None None empty_state)
     = Inr [(''id'', PInt 42)]"
proof -
  have gen: "fst (parse is_json [(name, fld)] req error_status_code error_headers s)
        = Inr [(name, PInt n)]"
    if "location fld = ''view_args''" and "ftype fld = Integer_field"
      and "map_of (view_args req) name = Some (PStr str)" and "int_of_string str = Some n"
    for str n
    using that by (simp add: parse_def parse_arg_view_args parse_view_args_pulls)
  have inst: "parse_view_args users_request ''id'' users_id_field = Val (PStr ''42'')"
    by (simp add: parse_view_args_def users_request_def)
  have run: "fst (parse is_json users_schema users_request None None empty_state)
     = Inr [(''id'', PInt 42)]"
    by (simp add: location_map_def parse_view_args_def users_request_def users_schema_def
        users_id_field_def parse_def parse_arg_def resolver_method_def clear_cache_def
        empty_state_def int_of_string_def digit_of_def)
  have loc: "map_of location_map ''view_args'' = Some ''parse_view_args''"
    by (simp add: location_map_def)
  from gen inst run loc parse_view_args_pulls [of req name fld]
    parse_arg_view_args [of fld is_json name req s]
  show ?thesis by blast
qed

theorem integer_parsed_from_view_args_witness:
  "location users_id_field = ''view_args'' \<and> ftype users_id_field = Integer_field \<and>
   map_of (view_args users_request) ''id'' = Some (PStr ''42'') \<and>
   int_of_string ''42'' = Some 42 \<and>
   parse_view_args users_request ''id'' users_id_field = Val (PStr ''42'') \<and>
   fst (parse application_json [(''id'', users_id_field)] users_request None None empty_state)
     = Inr [(''id'', PInt 42)]"
  using integer_parsed_from_view_args
    [of users_request "''id''" users_id_field application_json empty_state None None]
  by (simp add: users_id_field_def users_request_def int_of_string_def digit_of_def)

end
